theory Spec2Isabelle
  imports Main
begin

section \<open>Paths\<close>

text \<open>
  A path is the list of its components below the file-system root; on Windows the first
  component is the drive (\<open>C:\<close>).  A path name as a program receives it is absolute or
  relative to the current directory.
\<close>

type_synonym path = "string list"

datatype pathname = Abs path | Rel "string list"

definition bs :: char where
  "bs = CHR 0x5C"

definition dq :: char where
  "dq = CHR 0x22"

definition is_drive :: "string \<Rightarrow> bool" where
  "is_drive c = (c \<noteq> [] \<and> last c = CHR '':'')"

text \<open>
  One step up from a path held in reverse: the root has no parent, and neither has a
  Windows drive.
\<close>

fun pop :: "bool \<Rightarrow> string list \<Rightarrow> string list" where
  "pop win [] = []"
| "pop win [r] = (if win \<and> is_drive r then [r] else [])"
| "pop win (c # cs) = cs"

text \<open>\<open>os.path.normpath\<close>: empty and \<open>.\<close> components vanish, \<open>..\<close> goes one step up.\<close>

fun normpath_acc :: "bool \<Rightarrow> string list \<Rightarrow> string list \<Rightarrow> path" where
  "normpath_acc win acc [] = rev acc"
| "normpath_acc win acc (c # cs) =
     (if c = [] \<or> c = ''.'' then normpath_acc win acc cs
      else if c = ''..'' then normpath_acc win (pop win acc) cs
      else normpath_acc win (c # acc) cs)"

definition normpath :: "bool \<Rightarrow> string list \<Rightarrow> path" where
  "normpath win p = normpath_acc win [] p"

text \<open>
  \<open>os.path.abspath(p)\<close>: a relative name is joined to \<open>os.getcwd()\<close>, then the result is
  normalised.
\<close>

definition abspath :: "bool \<Rightarrow> path \<Rightarrow> pathname \<Rightarrow> path" where
  "abspath win getcwd f = normpath win (case f of Abs p \<Rightarrow> p | Rel r \<Rightarrow> getcwd @ r)"

definition dirname :: "bool \<Rightarrow> path \<Rightarrow> path" where
  "dirname win p = rev (pop win (rev p))"

text \<open>Splitting a string at a separator; empty fields are dropped.\<close>

fun split_acc :: "char \<Rightarrow> string \<Rightarrow> string \<Rightarrow> string list" where
  "split_acc sep acc [] = (if acc = [] then [] else [rev acc])"
| "split_acc sep acc (c # cs) =
     (if c = sep then (if acc = [] then [] else [rev acc]) @ split_acc sep [] cs
      else split_acc sep (c # acc) cs)"

definition split_on :: "char \<Rightarrow> string \<Rightarrow> string list" where
  "split_on sep s = split_acc sep [] s"

text \<open>A Windows path string, as the system reads it: components between backslashes.\<close>

definition win_path :: "string \<Rightarrow> path" where
  "win_path s = split_on bs s"

text \<open>
  The string of a directory with its trailing backslash, the form in which the command
  interpreter expands \<open>%~dp0\<close>.
\<close>

definition render :: "path \<Rightarrow> string" where
  "render p = concat (map (\<lambda>c. c @ [bs]) p)"


section \<open>The world a script runs in\<close>

record shortcut =
  TargetPath :: string
  WorkingDirectory :: string
  Description :: string
  IconLocation :: string

datatype content = Text "string list" | Lnk shortcut | Binary

datatype node = Dir | File content

record process =
  argv :: "string list"
  pcwd :: path
  hidden :: bool
  waited :: bool
  piped :: bool

text \<open>
  The requests a script makes to the system, in order, each with its outcome: changing the
  current directory, starting a process, running a Python file inside the running
  interpreter (file, run name, current directory at that moment), saving a shortcut.
\<close>

datatype call =
    Chdir path
  | Spawn process
  | RunPath path string path
  | SaveShortcut path shortcut

record world =
  fs :: "path \<rightharpoonup> node"
  cwd :: path
  sys_path :: "path list"
  calls :: "(call \<times> bool) list"
  console :: "string list"

text \<open>
  What a script reads from its environment: the name it was started under
  (\<open>__file__\<close>, \<open>WScript.ScriptFullName\<close>, \<open>%0\<close>), \<open>Path.home()\<close>,
  \<open>sys.executable\<close>, whether \<open>sys.platform\<close> is \<open>win32\<close>, and the environment variables
  \<open>USERPROFILE\<close>, \<open>TEMP\<close> and \<open>PATH\<close> (its directories in order).
\<close>

record env =
  script_file :: pathname
  home :: path
  executable :: string
  win32 :: bool
  USERPROFILE :: string
  TEMP :: string
  PATH :: "string list"

datatype error = FileNotFoundError path | NotADirectoryError path | WshRuntimeError string

type_synonym result = "(error + unit) \<times> world"

definition is_dir :: "world \<Rightarrow> path \<Rightarrow> bool" where
  "is_dir w p = (fs w p = Some Dir)"

definition is_file :: "world \<Rightarrow> path \<Rightarrow> bool" where
  "is_file w p = (case fs w p of Some (File c) \<Rightarrow> True | _ \<Rightarrow> False)"

definition record_call :: "call \<Rightarrow> bool \<Rightarrow> world \<Rightarrow> world" where
  "record_call c ok w = w\<lparr>calls := calls w @ [(c, ok)]\<rparr>"

text \<open>Statements in sequence: an uncaught exception ends the script.\<close>

definition then_do :: "(world \<Rightarrow> result) \<Rightarrow> (world \<Rightarrow> result) \<Rightarrow> world \<Rightarrow> result" where
  "then_do m k w = (case m w of (Inl e, w') \<Rightarrow> (Inl e, w') | (Inr u, w') \<Rightarrow> k w')"


section \<open>The Python launchers\<close>

definition CREATE_NO_WINDOW :: nat where
  "CREATE_NO_WINDOW = 0x08000000"

text \<open>
  \<open>subprocess.Popen(args, cwd=d, creationflags=flags)\<close>: the child is created in directory
  \<open>d\<close> and Popen returns without waiting for it; no \<open>stdin\<close>, \<open>stdout\<close> or \<open>stderr\<close> is
  given, so no pipe joins the two; when \<open>d\<close> is no directory the call raises
  (NotADirectoryError on Windows, FileNotFoundError elsewhere) and no process exists.  The
  interpreter \<open>sys.executable\<close> is the one running the launcher, so it is there.
\<close>

definition cwd_error :: "env \<Rightarrow> path \<Rightarrow> error" where
  "cwd_error e d = (if win32 e then NotADirectoryError d else FileNotFoundError d)"

definition Popen :: "env \<Rightarrow> string list \<Rightarrow> path \<Rightarrow> nat \<Rightarrow> world \<Rightarrow> result" where
  "Popen e args d creationflags w =
     (let p = \<lparr>argv = args, pcwd = d, hidden = (creationflags = CREATE_NO_WINDOW),
                waited = False, piped = False\<rparr>
      in if is_dir w d then (Inr (), record_call (Spawn p) True w)
         else (Inl (cwd_error e d), record_call (Spawn p) False w))"

definition chdir :: "path \<Rightarrow> world \<Rightarrow> result" where
  "chdir d w =
     (if is_dir w d then (Inr (), record_call (Chdir d) True (w\<lparr>cwd := d\<rparr>))
      else (Inl (FileNotFoundError d), record_call (Chdir d) False w))"

definition sys_path_insert0 :: "path \<Rightarrow> world \<Rightarrow> result" where
  "sys_path_insert0 d w = (Inr (), w\<lparr>sys_path := d # sys_path w\<rparr>)"

text \<open>
  \<open>runpy.run_path(file, run_name=name)\<close> executes the file inside the running interpreter.
  The file \<open>main.py\<close> is not among the sources: that it ran is recorded, what it does is
  outside this model.
\<close>

definition run_path :: "path \<Rightarrow> string \<Rightarrow> world \<Rightarrow> result" where
  "run_path f run_name w =
     (if is_file w f then (Inr (), record_call (RunPath f run_name (cwd w)) True w)
      else (Inl (FileNotFoundError f), record_call (RunPath f run_name (cwd w)) False w))"

text \<open>
  Both script-relative Python launchers begin with
  \<^verbatim>\<open>script_dir = os.path.dirname(os.path.abspath(__file__))\<close>
\<close>

definition script_dir :: "env \<Rightarrow> world \<Rightarrow> path" where
  "script_dir e w = dirname (win32 e) (abspath (win32 e) (cwd w) (script_file e))"

text \<open>
  NIBOR_Recon.pyw:
  \<^verbatim>\<open>
  subprocess.Popen(
      [sys.executable, "main.py"],
      cwd=script_dir,
      creationflags=subprocess.CREATE_NO_WINDOW if sys.platform == "win32" else 0
  )
  \<close>
\<close>

definition NIBOR_Recon :: "env \<Rightarrow> world \<Rightarrow> result" where
  "NIBOR_Recon e w =
     Popen e [executable e, ''main.py''] (script_dir e w)
       (if win32 e then CREATE_NO_WINDOW else 0) w"

text \<open>
  The launcher of unnamed/part_000:
  \<^verbatim>\<open>
  project_dir = Path.home() / "OneDrive - Swedbank"
      / "GroupTreasury-ShortTermFunding - Documents" / "Samba" / "Samba" / "Gitnewnew"
  subprocess.Popen(
      [sys.executable, "main.py"],
      cwd=str(project_dir),
      creationflags=subprocess.CREATE_NO_WINDOW if sys.platform == "win32" else 0
  )
  \<close>
\<close>

definition project_dir :: "env \<Rightarrow> path" where
  "project_dir e =
     home e @ [''OneDrive - Swedbank''] @ [''GroupTreasury-ShortTermFunding - Documents'']
       @ [''Samba''] @ [''Samba''] @ [''Gitnewnew'']"

definition part_000_launcher :: "env \<Rightarrow> world \<Rightarrow> result" where
  "part_000_launcher e w =
     Popen e [executable e, ''main.py''] (project_dir e)
       (if win32 e then CREATE_NO_WINDOW else 0) w"

text \<open>
  The launcher at the end of unnamed/part_001:
  \<^verbatim>\<open>
  os.chdir(script_dir)
  if script_dir not in sys.path:
      sys.path.insert(0, script_dir)
  runpy.run_path(os.path.join(script_dir, "main.py"), run_name="__main__")
  \<close>
\<close>

definition part_001_launcher :: "env \<Rightarrow> world \<Rightarrow> result" where
  "part_001_launcher e w =
     (let sd = script_dir e w in
      then_do (chdir sd)
        (then_do (\<lambda>w1. if sd \<in> set (sys_path w1) then (Inr (), w1) else sys_path_insert0 sd w1)
           (run_path (sd @ [''main.py'']) ''__main__'')) w)"


section \<open>The Windows Script Host launcher\<close>

definition ScriptFullName :: "env \<Rightarrow> world \<Rightarrow> path" where
  "ScriptFullName e w = abspath True (cwd w) (script_file e)"

definition GetParentFolderName :: "path \<Rightarrow> path" where
  "GetParentFolderName p = butlast p"

definition set_CurrentDirectory :: "path \<Rightarrow> world \<Rightarrow> result" where
  "set_CurrentDirectory d w =
     (if is_dir w d then (Inr (), record_call (Chdir d) True (w\<lparr>cwd := d\<rparr>))
      else (Inl (WshRuntimeError ''path not found''), record_call (Chdir d) False w))"

text \<open>
  The first of the given directories that holds a file of the given name, as the full
  path string of that file.
\<close>

fun search_dirs :: "world \<Rightarrow> string list \<Rightarrow> string \<Rightarrow> string" where
  "search_dirs w [] name = []"
| "search_dirs w (d # ds) name =
     (if is_file w (win_path d @ [name]) then d @ [bs] @ name else search_dirs w ds name)"

text \<open>
  \<open>WshShell.Run command, style, wait\<close>: the program is the first word of the command,
  looked up (with \<open>.exe\<close>) in the current directory and along \<open>PATH\<close>; window style 0
  hides the window; the process inherits the current directory.  A program that is not
  found is a runtime error.
\<close>

definition WshShell_Run :: "string \<Rightarrow> nat \<Rightarrow> bool \<Rightarrow> env \<Rightarrow> world \<Rightarrow> result" where
  "WshShell_Run command style wait e w =
     (case split_on CHR '' '' command of
        [] \<Rightarrow> (Inl (WshRuntimeError ''no command''), w)
      | prog # args \<Rightarrow>
          (let p = \<lparr>argv = prog # args, pcwd = cwd w, hidden = (style = 0), waited = wait, piped = False\<rparr>
           in if is_file w (cwd w @ [prog @ ''.exe''])
                 \<or> search_dirs w (PATH e) (prog @ ''.exe'') \<noteq> []
              then (Inr (), record_call (Spawn p) True w)
              else (Inl (WshRuntimeError ''file not found''), record_call (Spawn p) False w)))"

text \<open>
  start_nibor.vbs:
  \<^verbatim>\<open>
  scriptDir = fso.GetParentFolderName(WScript.ScriptFullName)
  WshShell.CurrentDirectory = scriptDir
  WshShell.Run "pythonw main.py", 0, False
  \<close>
  The script has no \<open>On Error Resume Next\<close>: a runtime error ends it.
\<close>

definition start_nibor :: "env \<Rightarrow> world \<Rightarrow> result" where
  "start_nibor e w =
     (let scriptDir = GetParentFolderName (ScriptFullName e w) in
      then_do (set_CurrentDirectory scriptDir)
        (WshShell_Run ''pythonw main.py'' 0 False e) w)"


section \<open>Shortcut scripts as the script host runs them\<close>

text \<open>
  The batch file writes a VBScript file and has \<open>cscript\<close> run it.  The statements that
  file can hold, read back from its lines: a trailing blank is ignored, a string literal
  stands between double quotes and holds none.
\<close>

datatype vbs_stmt =
    CreateShell
  | AssignLinkFile string
  | CreateShortcut
  | SetTargetPath string
  | SetWorkingDirectory string
  | SetDescription string
  | SetIconLocation string
  | Save

definition quoted :: "string \<Rightarrow> string" where
  "quoted s = dq # s @ [dq]"

definition rstrip :: "string \<Rightarrow> string" where
  "rstrip s = rev (dropWhile (\<lambda>c. c = CHR '' '') (rev s))"

definition literal :: "string \<Rightarrow> string option" where
  "literal t =
     (case t of
        [] \<Rightarrow> None
      | q # r \<Rightarrow>
          if q = dq \<and> r \<noteq> [] \<and> last r = dq \<and> dq \<notin> set (butlast r)
          then Some (butlast r) else None)"

definition assignment :: "string \<Rightarrow> string \<Rightarrow> string option" where
  "assignment lhs s =
     (if take (length lhs) s = lhs then literal (drop (length lhs) s) else None)"

definition parse_vbs :: "string \<Rightarrow> vbs_stmt option" where
  "parse_vbs line =
     (let s = rstrip line in
      if s = ''Set oWS = WScript.CreateObject('' @ quoted ''WScript.Shell'' @ '')''
      then Some CreateShell
      else if s = ''Set oLink = oWS.CreateShortcut(sLinkFile)'' then Some CreateShortcut
      else if s = ''oLink.Save'' then Some Save
      else case assignment ''sLinkFile = '' s of
        Some v \<Rightarrow> Some (AssignLinkFile v)
      | None \<Rightarrow>
     (case assignment ''oLink.TargetPath = '' s of
        Some v \<Rightarrow> Some (SetTargetPath v)
      | None \<Rightarrow>
     (case assignment ''oLink.WorkingDirectory = '' s of
        Some v \<Rightarrow> Some (SetWorkingDirectory v)
      | None \<Rightarrow>
     (case assignment ''oLink.Description = '' s of
        Some v \<Rightarrow> Some (SetDescription v)
      | None \<Rightarrow>
     (case assignment ''oLink.IconLocation = '' s of
        Some v \<Rightarrow> Some (SetIconLocation v)
      | None \<Rightarrow> None)))))"

fun parse_all :: "string list \<Rightarrow> vbs_stmt list option" where
  "parse_all [] = Some []"
| "parse_all (l # ls) =
     (case parse_vbs l of
        None \<Rightarrow> None
      | Some s \<Rightarrow> (case parse_all ls of None \<Rightarrow> None | Some ss \<Rightarrow> Some (s # ss)))"

record vbs_state =
  oWS :: bool
  sLinkFile :: "string option"
  oLink :: "(string \<times> shortcut) option"

definition vbs_start :: vbs_state where
  "vbs_start = \<lparr>oWS = False, sLinkFile = None, oLink = None\<rparr>"

definition empty_shortcut :: shortcut where
  "empty_shortcut =
     \<lparr>TargetPath = [], WorkingDirectory = [], Description = [], IconLocation = []\<rparr>"

definition is_lnk_name :: "string \<Rightarrow> bool" where
  "is_lnk_name f = (take 4 (rev f) = rev ''.lnk'')"

text \<open>
  A path that can be written: its folder exists and it is no folder itself.
\<close>

definition writable :: "world \<Rightarrow> path \<Rightarrow> bool" where
  "writable w p = (p \<noteq> [] \<and> is_dir w (butlast p) \<and> \<not> is_dir w p)"

text \<open>
  One statement.  \<open>CreateShortcut\<close> opens the shortcut of that name when there is one and
  a fresh one otherwise; an icon location may be empty (the shortcut then has no icon of
  its own); \<open>Save\<close> writes the file.  No state comes back after a runtime error.
\<close>

fun step_vbs :: "vbs_stmt \<Rightarrow> vbs_state \<Rightarrow> world \<Rightarrow> vbs_state option \<times> world" where
  "step_vbs CreateShell st w = (Some (st\<lparr>oWS := True\<rparr>), w)"
| "step_vbs (AssignLinkFile v) st w = (Some (st\<lparr>sLinkFile := Some v\<rparr>), w)"
| "step_vbs CreateShortcut st w =
     (case sLinkFile st of
        None \<Rightarrow> (None, w)
      | Some f \<Rightarrow>
          if oWS st \<and> is_lnk_name f
          then (Some (st\<lparr>oLink := Some (f,
                  case fs w (win_path f) of
                    Some (File (Lnk sc)) \<Rightarrow> sc
                  | _ \<Rightarrow> empty_shortcut)\<rparr>), w)
          else (None, w))"
| "step_vbs (SetTargetPath v) st w =
     (case oLink st of
        None \<Rightarrow> (None, w)
      | Some (f, sc) \<Rightarrow> (Some (st\<lparr>oLink := Some (f, sc\<lparr>TargetPath := v\<rparr>)\<rparr>), w))"
| "step_vbs (SetWorkingDirectory v) st w =
     (case oLink st of
        None \<Rightarrow> (None, w)
      | Some (f, sc) \<Rightarrow> (Some (st\<lparr>oLink := Some (f, sc\<lparr>WorkingDirectory := v\<rparr>)\<rparr>), w))"
| "step_vbs (SetDescription v) st w =
     (case oLink st of
        None \<Rightarrow> (None, w)
      | Some (f, sc) \<Rightarrow> (Some (st\<lparr>oLink := Some (f, sc\<lparr>Description := v\<rparr>)\<rparr>), w))"
| "step_vbs (SetIconLocation v) st w =
     (case oLink st of
        None \<Rightarrow> (None, w)
      | Some (f, sc) \<Rightarrow> (Some (st\<lparr>oLink := Some (f, sc\<lparr>IconLocation := v\<rparr>)\<rparr>), w))"
| "step_vbs Save st w =
     (case oLink st of
        None \<Rightarrow> (None, w)
      | Some (f, sc) \<Rightarrow>
          if writable w (win_path f)
          then (Some st, record_call (SaveShortcut (win_path f) sc) True
                           (w\<lparr>fs := (fs w)(win_path f \<mapsto> File (Lnk sc))\<rparr>))
          else (None, record_call (SaveShortcut (win_path f) sc) False w))"

definition print :: "string \<Rightarrow> world \<Rightarrow> world" where
  "print s w = w\<lparr>console := console w @ [s]\<rparr>"

fun exec_vbs :: "vbs_stmt list \<Rightarrow> vbs_state \<Rightarrow> world \<Rightarrow> world" where
  "exec_vbs [] st w = w"
| "exec_vbs (s # ss) st w =
     (case step_vbs s st w of
        (Some st', w') \<Rightarrow> exec_vbs ss st' w'
      | (None, w') \<Rightarrow> print ''Microsoft VBScript runtime error'' w')"

text \<open>A script with a line that is no statement is refused whole, before any line runs.\<close>

definition run_vbs :: "string list \<Rightarrow> world \<Rightarrow> world" where
  "run_vbs ls w =
     (case parse_all ls of
        None \<Rightarrow> print ''Microsoft VBScript compilation error'' w
      | Some ss \<Rightarrow> exec_vbs ss vbs_start w)"


section \<open>The shortcut batch file\<close>

text \<open>
  The commands of the command interpreter the batch file uses.  A batch file goes on
  after a command that fails; the failure is a message on the console.
\<close>

text \<open>
  A redirection that cannot open its file: the folder is missing, or the name is a
  folder's.
\<close>

definition redirect_failure :: "world \<Rightarrow> path \<Rightarrow> string" where
  "redirect_failure w p =
     (if is_dir w p then ''Access is denied.''
      else ''The system cannot find the path specified.'')"

text \<open>\<open>echo text > "file"\<close>\<close>

definition echo_to :: "string \<Rightarrow> string \<Rightarrow> world \<Rightarrow> world" where
  "echo_to line file w =
     (if writable w (win_path file)
      then w\<lparr>fs := (fs w)(win_path file \<mapsto> File (Text [line]))\<rparr>
      else print (redirect_failure w (win_path file)) w)"

text \<open>\<open>echo text >> "file"\<close>\<close>

definition echo_append :: "string \<Rightarrow> string \<Rightarrow> world \<Rightarrow> world" where
  "echo_append line file w =
     (if writable w (win_path file)
      then w\<lparr>fs := (fs w)(win_path file \<mapsto> File
              (case fs w (win_path file) of
                 None \<Rightarrow> Text [line]
               | Some (File (Text ls)) \<Rightarrow> Text (ls @ [line])
               | _ \<Rightarrow> Binary))\<rparr>
      else print (redirect_failure w (win_path file)) w)"

text \<open>\<open>if exist "file"\<close>\<close>

definition exist :: "string \<Rightarrow> world \<Rightarrow> bool" where
  "exist file w = (fs w (win_path file) \<noteq> None)"

text \<open>
  \<open>cscript //nologo "file"\<close>: the command interpreter starts the script host and waits for
  it to end.
\<close>

definition cscript :: "string \<Rightarrow> world \<Rightarrow> world" where
  "cscript file w =
     (let w1 = record_call
                 (Spawn \<lparr>argv = [''cscript'', ''//nologo'', file], pcwd = cwd w,
                         hidden = False, waited = True, piped = False\<rparr>) True w
      in case fs w1 (win_path file) of
           Some (File (Text ls)) \<Rightarrow> run_vbs ls w1
         | _ \<Rightarrow> print ''Input Error: Can not find script file.'' w1)"

text \<open>\<open>del "file"\<close>; a folder of that name is left alone.\<close>

definition del :: "string \<Rightarrow> world \<Rightarrow> world" where
  "del file w =
     (if is_file w (win_path file) then w\<lparr>fs := (fs w)(win_path file := None)\<rparr>
      else print (''Could Not Find '' @ file) w)"

text \<open>
  The variables the batch file sets, and the name of its temporary script:
  \<^verbatim>\<open>
  set SCRIPT_DIR=%~dp0
  set SHORTCUT_NAME=NIBOR Terminal
  set DESKTOP=%USERPROFILE%\Desktop
  \<close>
  \<open>%~dp0\<close> is the folder of the batch file, with drive and trailing backslash.
\<close>

definition SCRIPT_DIR :: "env \<Rightarrow> world \<Rightarrow> string" where
  "SCRIPT_DIR e w = render (butlast (abspath True (cwd w) (script_file e)))"

definition SHORTCUT_NAME :: string where
  "SHORTCUT_NAME = ''NIBOR Terminal''"

definition DESKTOP :: "env \<Rightarrow> string" where
  "DESKTOP e = USERPROFILE e @ [bs] @ ''Desktop''"

definition temp_vbs :: "env \<Rightarrow> string" where
  "temp_vbs e = TEMP e @ [bs] @ ''CreateShortcut.vbs''"

text \<open>
  Lines 10 to 22 of the batch file write the script line by line; each \<open>echo\<close> puts
  the text up to the redirection, trailing blank included, on a line of the file:
  \<^verbatim>\<open>
  echo Set oWS = WScript.CreateObject("WScript.Shell") > "%TEMP%\CreateShortcut.vbs"
  echo sLinkFile = "%DESKTOP%\%SHORTCUT_NAME%.lnk" >> "%TEMP%\CreateShortcut.vbs"
  echo Set oLink = oWS.CreateShortcut(sLinkFile) >> "%TEMP%\CreateShortcut.vbs"
  echo oLink.TargetPath = "%SCRIPT_DIR%start_nibor.vbs" >> "%TEMP%\CreateShortcut.vbs"
  echo oLink.WorkingDirectory = "%SCRIPT_DIR%" >> "%TEMP%\CreateShortcut.vbs"
  echo oLink.Description = "NIBOR Calculation Terminal" >> "%TEMP%\CreateShortcut.vbs"
  if exist "%SCRIPT_DIR%assets\icon.ico" (
      echo oLink.IconLocation = "%SCRIPT_DIR%assets\icon.ico" >> "%TEMP%\CreateShortcut.vbs"
  ) else (
      for %%I in (pythonw.exe) do echo oLink.IconLocation = "%%~$PATH:I" >> "%TEMP%\CreateShortcut.vbs"
  )
  echo oLink.Save >> "%TEMP%\CreateShortcut.vbs"
  \<close>
  \<open>%%~$PATH:I\<close> is the full name of the first pythonw.exe along \<open>PATH\<close>, or empty.
\<close>

definition write_script :: "env \<Rightarrow> world \<Rightarrow> world" where
  "write_script e w0 =
     (let sd = SCRIPT_DIR e w0;
          f = temp_vbs e;
          w1 = echo_to (''Set oWS = WScript.CreateObject('' @ quoted ''WScript.Shell'' @ '') '') f w0;
          w2 = echo_append (''sLinkFile = '' @ quoted (DESKTOP e @ [bs] @ SHORTCUT_NAME @ ''.lnk'')
                  @ '' '') f w1;
          w3 = echo_append (''Set oLink = oWS.CreateShortcut(sLinkFile) '') f w2;
          w4 = echo_append (''oLink.TargetPath = '' @ quoted (sd @ ''start_nibor.vbs'') @ '' '') f w3;
          w5 = echo_append (''oLink.WorkingDirectory = '' @ quoted sd @ '' '') f w4;
          w6 = echo_append (''oLink.Description = '' @ quoted ''NIBOR Calculation Terminal''
                  @ '' '') f w5;
          w7 = (if exist (sd @ ''assets'' @ [bs] @ ''icon.ico'') w6
                then echo_append (''oLink.IconLocation = ''
                       @ quoted (sd @ ''assets'' @ [bs] @ ''icon.ico'') @ '' '') f w6
                else echo_append (''oLink.IconLocation = ''
                       @ quoted (search_dirs w6 (PATH e) ''pythonw.exe'') @ '' '') f w6)
      in echo_append ''oLink.Save '' f w7)"

text \<open>Lines 28 to 34: the closing message and \<open>pause\<close>.\<close>

definition banner_lines :: "string list" where
  "banner_lines =
     [[], ''========================================'',
      '' Shortcut created on Desktop!'',
      '' Look for '' @ quoted ''NIBOR Terminal'' @ '' icon'',
      ''========================================'', [],
      ''Press any key to continue . . . '']"

definition banner :: "world \<Rightarrow> world" where
  "banner w = foldl (\<lambda>v s. print s v) w banner_lines"

text \<open>
  unnamed/part_002, which the setup guide calls create_shortcut.bat: the script is
  written, run and deleted, then comes the closing message.
  \<^verbatim>\<open>
  cscript //nologo "%TEMP%\CreateShortcut.vbs"
  del "%TEMP%\CreateShortcut.vbs"
  \<close>
\<close>

definition create_shortcut_bat :: "env \<Rightarrow> world \<Rightarrow> world" where
  "create_shortcut_bat e w =
     banner (del (temp_vbs e) (cscript (temp_vbs e) (write_script e w)))"


section \<open>What the claims speak of\<close>

text \<open>
  File names in which the batch file's text substitution is what it looks like.  The
  folder of the batch file and \<open>%USERPROFILE%\<close> are substituted into unquoted \<open>set\<close>
  commands and written into the script: they hold no double quote, none of the characters
  the command interpreter reads as operators, and ASCII only (the command interpreter
  writes the script in the console's code page, the script host reads it in the
  system's); the same for the pythonw.exe found on \<open>PATH\<close>, which is written into the
  script.  \<open>%TEMP%\<close> is used between double quotes only and holds none.  A component of a
  path moreover is not empty and holds no backslash.
\<close>

definition special :: string where
  "special = [dq, CHR ''&'', CHR ''^'', CHR ''|'', CHR ''<'', CHR ''>'', CHR ''%'']"

definition plain :: "string \<Rightarrow> bool" where
  "plain s = (\<forall>c\<in>set s. c \<notin> set special \<and> \<not> digit7 c)"

definition name_ok :: "string \<Rightarrow> bool" where
  "name_ok c = (c \<noteq> [] \<and> bs \<notin> set c \<and> plain c)"

text \<open>The folder of the batch file, the temporary script, the shortcut on the Desktop.\<close>

definition batch_dir :: "env \<Rightarrow> world \<Rightarrow> path" where
  "batch_dir e w = butlast (abspath True (cwd w) (script_file e))"

definition tmp_path :: "env \<Rightarrow> path" where
  "tmp_path e = win_path (TEMP e) @ [''CreateShortcut.vbs'']"

definition link_path :: "env \<Rightarrow> path" where
  "link_path e = win_path (USERPROFILE e) @ [''Desktop'', ''NIBOR Terminal.lnk'']"

definition batch_env_ok :: "env \<Rightarrow> world \<Rightarrow> bool" where
  "batch_env_ok e w =
     ((\<forall>c\<in>set (batch_dir e w). name_ok c) \<and> plain (USERPROFILE e) \<and> dq \<notin> set (TEMP e)
      \<and> plain (search_dirs w (PATH e) ''pythonw.exe''))"

definition icon_of :: "env \<Rightarrow> world \<Rightarrow> string" where
  "icon_of e w =
     (if fs w (batch_dir e w @ [''assets'', ''icon.ico'']) \<noteq> None
      then render (batch_dir e w) @ ''assets'' @ [bs] @ ''icon.ico''
      else search_dirs w (PATH e) ''pythonw.exe'')"

definition the_shortcut :: "env \<Rightarrow> world \<Rightarrow> shortcut" where
  "the_shortcut e w =
     \<lparr>TargetPath = render (batch_dir e w) @ ''start_nibor.vbs'',
      WorkingDirectory = render (batch_dir e w),
      Description = ''NIBOR Calculation Terminal'',
      IconLocation = icon_of e w\<rparr>"

definition cscript_process :: "env \<Rightarrow> world \<Rightarrow> process" where
  "cscript_process e w =
     \<lparr>argv = [''cscript'', ''//nologo'', temp_vbs e], pcwd = cwd w, hidden = False,
      waited = True, piped = False\<rparr>"

text \<open>The lines of the temporary script, and the statements they are.\<close>

definition script_lines :: "env \<Rightarrow> world \<Rightarrow> string list" where
  "script_lines e w =
     [''Set oWS = WScript.CreateObject('' @ quoted ''WScript.Shell'' @ '') '',
      ''sLinkFile = '' @ quoted (DESKTOP e @ [bs] @ SHORTCUT_NAME @ ''.lnk'') @ '' '',
      ''Set oLink = oWS.CreateShortcut(sLinkFile) '',
      ''oLink.TargetPath = '' @ quoted (TargetPath (the_shortcut e w)) @ '' '',
      ''oLink.WorkingDirectory = '' @ quoted (WorkingDirectory (the_shortcut e w)) @ '' '',
      ''oLink.Description = '' @ quoted (Description (the_shortcut e w)) @ '' '',
      ''oLink.IconLocation = '' @ quoted (IconLocation (the_shortcut e w)) @ '' '',
      ''oLink.Save '']"

definition script_stmts :: "env \<Rightarrow> world \<Rightarrow> vbs_stmt list" where
  "script_stmts e w =
     [CreateShell, AssignLinkFile (DESKTOP e @ [bs] @ SHORTCUT_NAME @ ''.lnk''), CreateShortcut,
      SetTargetPath (TargetPath (the_shortcut e w)),
      SetWorkingDirectory (WorkingDirectory (the_shortcut e w)),
      SetDescription (Description (the_shortcut e w)),
      SetIconLocation (IconLocation (the_shortcut e w)), Save]"

text \<open>The four launchers, and what each aims at.\<close>

datatype launcher = NIBOR_Recon_pyw | Part_000 | Part_001 | Start_nibor_vbs

fun run :: "launcher \<Rightarrow> env \<Rightarrow> world \<Rightarrow> result" where
  "run NIBOR_Recon_pyw e w = NIBOR_Recon e w"
| "run Part_000 e w = part_000_launcher e w"
| "run Part_001 e w = part_001_launcher e w"
| "run Start_nibor_vbs e w = start_nibor e w"

text \<open>
  Where a launcher file lies: the name it was started under, read from the directory it
  was started in.  Its folder.  The directory it aims at.  The interpreter it names.
\<close>

definition location :: "launcher \<Rightarrow> env \<Rightarrow> world \<Rightarrow> path" where
  "location L e w = abspath (L = Start_nibor_vbs \<or> win32 e) (cwd w) (script_file e)"

definition launcher_dir :: "launcher \<Rightarrow> env \<Rightarrow> world \<Rightarrow> path" where
  "launcher_dir L e w =
     (if L = Start_nibor_vbs then butlast (location L e w)
      else dirname (win32 e) (location L e w))"

fun target_dir :: "launcher \<Rightarrow> env \<Rightarrow> world \<Rightarrow> path" where
  "target_dir Part_000 e w = project_dir e"
| "target_dir L e w = launcher_dir L e w"

definition interpreter :: "launcher \<Rightarrow> env \<Rightarrow> string" where
  "interpreter L e = (if L = Start_nibor_vbs then ''pythonw'' else executable e)"

text \<open>
  Read from a log: the processes asked for, the files asked to run inside the
  interpreter, and the working directories handed to what was launched.
\<close>

fun spawned :: "(call \<times> bool) list \<Rightarrow> process list" where
  "spawned [] = []"
| "spawned ((Spawn p, ok) # cs) = p # spawned cs"
| "spawned (c # cs) = spawned cs"

fun in_process :: "(call \<times> bool) list \<Rightarrow> (path \<times> string \<times> path) list" where
  "in_process [] = []"
| "in_process ((RunPath f n d, ok) # cs) = (f, n, d) # in_process cs"
| "in_process (c # cs) = in_process cs"

fun working_dirs :: "(call \<times> bool) list \<Rightarrow> path list" where
  "working_dirs [] = []"
| "working_dirs ((Spawn p, ok) # cs) = pcwd p # working_dirs cs"
| "working_dirs ((RunPath f n d, ok) # cs) = d # working_dirs cs"
| "working_dirs (c # cs) = working_dirs cs"



fun launched_files :: "(call \<times> bool) list \<Rightarrow> path list" where
  "launched_files [] = []"
| "launched_files ((Spawn p, ok) # cs) = (pcwd p @ [last (argv p)]) # launched_files cs"
| "launched_files ((RunPath f n d, ok) # cs) = f # launched_files cs"
| "launched_files (c # cs) = launched_files cs"

text \<open>
  What a launch needs: the directory aimed at; for the launcher that runs main.py inside
  its own interpreter, that file; for the script-host launcher, a pythonw.exe in the
  directory or along \<open>PATH\<close>.
\<close>

definition can_start :: "launcher \<Rightarrow> env \<Rightarrow> world \<Rightarrow> bool" where
  "can_start L e w =
     (is_dir w (target_dir L e w)
      \<and> (L \<noteq> Part_001 \<or> is_file w (target_dir L e w @ [''main.py'']))
      \<and> (L \<noteq> Start_nibor_vbs
           \<or> is_file w (target_dir L e w @ [''pythonw.exe''])
           \<or> search_dirs w (PATH e) ''pythonw.exe'' \<noteq> []))"

text \<open>The child of a launch finds its script when the file is in its working directory.\<close>

definition finds_script :: "world \<Rightarrow> process \<Rightarrow> bool" where
  "finds_script w p = (argv p \<noteq> [] \<and> is_file w (pcwd p @ [last (argv p)]))"

text \<open>The requests a run has added to the log.\<close>

definition new_calls :: "world \<Rightarrow> world \<Rightarrow> (call \<times> bool) list" where
  "new_calls w w' = drop (length (calls w)) (calls w')"


section \<open>A machine to run the scripts on\<close>

text \<open>
  A Windows machine: the project in the folder proj of drive C, Python in the folder
  Python (which is on \<open>PATH\<close>), a user \<open>u\<close> with a Desktop, and the scripts started
  from the user's home directory under a relative name.
\<close>

definition example_fs :: "path \<rightharpoonup> node" where
  "example_fs = map_of
     [([''C:''], Dir), ([''C:'', ''proj''], Dir), ([''C:'', ''proj'', ''main.py''], File Binary),
      ([''C:'', ''proj'', ''start_nibor.vbs''], File Binary),
      ([''C:'', ''Python''], Dir), ([''C:'', ''Python'', ''pythonw.exe''], File Binary),
      ([''C:'', ''Temp''], Dir), ([''C:'', ''Users''], Dir), ([''C:'', ''Users'', ''u''], Dir),
      ([''C:'', ''Users'', ''u'', ''Desktop''], Dir)]"

definition example_world :: world where
  "example_world =
     \<lparr>fs = example_fs, cwd = [''C:'', ''Users'', ''u''], sys_path = [], calls = [], console = []\<rparr>"

definition example_env :: env where
  "example_env =
     \<lparr>script_file = Rel [''..'', ''..'', ''proj'', ''create_shortcut.bat''],
      home = [''C:'', ''Users'', ''u''],
      executable = ''C:'' @ [bs] @ ''Python'' @ [bs] @ ''pythonw.exe'',
      win32 = True,
      USERPROFILE = ''C:'' @ [bs] @ ''Users'' @ [bs] @ ''u'',
      TEMP = ''C:'' @ [bs] @ ''Temp'',
      PATH = [''C:'' @ [bs] @ ''Windows'', ''C:'' @ [bs] @ ''Python'']\<rparr>"

text \<open>
  The same machine with the project folder of unnamed/part_000 in the user's OneDrive (and
  no main.py in it), with an icon file in the project, and with a file left at the place
  of the temporary script.
\<close>

definition onedrive_world :: world where
  "onedrive_world =
     example_world\<lparr>fs := (fs example_world)
       ([''C:'', ''Users'', ''u'', ''OneDrive - Swedbank''] \<mapsto> Dir,
        [''C:'', ''Users'', ''u'', ''OneDrive - Swedbank'',
         ''GroupTreasury-ShortTermFunding - Documents''] \<mapsto> Dir,
        [''C:'', ''Users'', ''u'', ''OneDrive - Swedbank'',
         ''GroupTreasury-ShortTermFunding - Documents'', ''Samba''] \<mapsto> Dir,
        [''C:'', ''Users'', ''u'', ''OneDrive - Swedbank'',
         ''GroupTreasury-ShortTermFunding - Documents'', ''Samba'', ''Samba''] \<mapsto> Dir,
        [''C:'', ''Users'', ''u'', ''OneDrive - Swedbank'',
         ''GroupTreasury-ShortTermFunding - Documents'', ''Samba'', ''Samba'', ''Gitnewnew'']
           \<mapsto> Dir)\<rparr>"


definition stale_world :: world where
  "stale_world =
     example_world\<lparr>fs := (fs example_world)
       ([''C:'', ''Temp'', ''CreateShortcut.vbs''] \<mapsto> File (Text [''stale'']))\<rparr>"

text \<open>The launcher NIBOR_Recon.pyw started from its own folder, under its bare name.\<close>

definition elsewhere_env :: env where
  "elsewhere_env = example_env\<lparr>script_file := Rel [''NIBOR_Recon.pyw'']\<rparr>"

definition elsewhere_world :: world where
  "elsewhere_world = example_world\<lparr>cwd := [''C:'', ''proj'']\<rparr>"


section \<open>Properties\<close>

subsection \<open>Path strings\<close>

lemma split_acc_sep:
  "split_acc sep acc (a @ sep # b) = split_acc sep acc a @ split_acc sep [] b"
  by (induction a arbitrary: acc) simp_all

lemma split_acc_plain:
  "sep \<notin> set c \<Longrightarrow> acc \<noteq> [] \<or> c \<noteq> [] \<Longrightarrow> split_acc sep acc c = [rev acc @ c]"
  by (induction c arbitrary: acc) auto

lemma win_path_append: "win_path (a @ bs # b) = win_path a @ win_path b"
  by (simp add: win_path_def split_on_def split_acc_sep)

lemma win_path_name: "bs \<notin> set c \<Longrightarrow> c \<noteq> [] \<Longrightarrow> win_path c = [c]"
  using split_acc_plain [of bs c "[]"] by (simp add: win_path_def split_on_def)

lemma win_path_render:
  "\<forall>c\<in>set p. c \<noteq> [] \<and> bs \<notin> set c \<Longrightarrow> win_path (render p @ s) = p @ win_path s"
proof (induction p)
  case Nil
  then show ?case by (simp add: render_def)
next
  case (Cons c p)
  have "win_path (render (c # p) @ s) = win_path (c @ bs # (render p @ s))"
    by (simp add: render_def)
  also have "\<dots> = win_path c @ win_path (render p @ s)"
    by (rule win_path_append)
  also have "\<dots> = c # p @ win_path s"
    using Cons by (simp add: win_path_name)
  finally show ?case by simp
qed

lemma win_path_tmp: "win_path (temp_vbs e) = tmp_path e"
  using win_path_append [of "TEMP e" "''CreateShortcut.vbs''"]
  by (simp add: temp_vbs_def tmp_path_def win_path_def split_on_def bs_def)

lemma win_path_link:
  "win_path (DESKTOP e @ [bs] @ SHORTCUT_NAME @ ''.lnk'') = link_path e"
proof -
  have "win_path (DESKTOP e @ [bs] @ SHORTCUT_NAME @ ''.lnk'')
          = win_path (USERPROFILE e) @ win_path (''Desktop'' @ bs # ''NIBOR Terminal.lnk'')"
    using win_path_append [of "USERPROFILE e" "''Desktop'' @ bs # ''NIBOR Terminal.lnk''"]
    by (simp add: DESKTOP_def SHORTCUT_NAME_def)
  also have "win_path (''Desktop'' @ bs # ''NIBOR Terminal.lnk'') = [''Desktop'', ''NIBOR Terminal.lnk'']"
    by (simp add: win_path_def split_on_def bs_def)
  finally show ?thesis by (simp add: link_path_def)
qed

lemma win_path_icon:
  "\<forall>c\<in>set (batch_dir e w). name_ok c \<Longrightarrow>
   win_path (SCRIPT_DIR e w @ ''assets'' @ [bs] @ ''icon.ico'') = batch_dir e w @ [''assets'', ''icon.ico'']"
proof -
  assume h: "\<forall>c\<in>set (batch_dir e w). name_ok c"
  then have "\<forall>c\<in>set (batch_dir e w). c \<noteq> [] \<and> bs \<notin> set c" by (simp add: name_ok_def)
  then have "win_path (render (batch_dir e w) @ (''assets'' @ [bs] @ ''icon.ico''))
               = batch_dir e w @ win_path (''assets'' @ [bs] @ ''icon.ico'')"
    by (rule win_path_render)
  moreover have "win_path (''assets'' @ [bs] @ ''icon.ico'') = [''assets'', ''icon.ico'']"
    by (simp add: win_path_def split_on_def bs_def)
  ultimately show ?thesis by (simp add: SCRIPT_DIR_def batch_dir_def)
qed



lemma link_not_tmp: "link_path e \<noteq> tmp_path e"
proof
  assume "link_path e = tmp_path e"
  then have "last (link_path e) = last (tmp_path e)" by simp
  then show False by (simp add: link_path_def tmp_path_def)
qed

lemma link_dir_not_tmp: "butlast (link_path e) \<noteq> tmp_path e"
proof
  assume "butlast (link_path e) = tmp_path e"
  then have "last (butlast (link_path e)) = last (tmp_path e)" by simp
  then show False by (simp add: link_path_def tmp_path_def butlast_append)
qed


subsection \<open>Searching along PATH\<close>

lemma search_dirs_upd:
  "last p \<noteq> n \<Longrightarrow> search_dirs (w\<lparr>fs := (fs w)(p \<mapsto> x)\<rparr>) ds n = search_dirs w ds n"
proof (induction ds)
  case Nil
  then show ?case by simp
next
  case (Cons d ds)
  have "win_path d @ [n] \<noteq> p" using Cons.prems by auto
  then show ?case using Cons by (simp add: is_file_def)
qed

lemma search_dirs_fs: "fs v = fs w \<Longrightarrow> search_dirs v ds n = search_dirs w ds n"
  by (induction ds) (simp_all add: is_file_def)




subsection \<open>Writing the temporary script\<close>

lemma writable_upd:
  "writable w p \<Longrightarrow> writable (w\<lparr>fs := (fs w)(p \<mapsto> File c)\<rparr>) p"
proof -
  assume h: "writable w p"
  then have "p \<noteq> []" by (simp add: writable_def)
  then have "butlast p \<noteq> p"
    by (metis length_butlast diff_less length_greater_0_conv less_irrefl zero_less_one)
  with h show ?thesis by (simp add: writable_def is_dir_def)
qed

lemma exist_icon_upd:
  assumes "\<forall>c\<in>set (batch_dir e w). name_ok c"
  shows "exist (SCRIPT_DIR e w @ ''assets'' @ [bs] @ ''icon.ico'')
           (w\<lparr>fs := (fs w)(tmp_path e \<mapsto> x)\<rparr>)
         = (fs w (batch_dir e w @ [''assets'', ''icon.ico'']) \<noteq> None)"
proof -
  have "batch_dir e w @ [''assets'', ''icon.ico''] \<noteq> tmp_path e"
  proof
    assume "batch_dir e w @ [''assets'', ''icon.ico''] = tmp_path e"
    then have "last (batch_dir e w @ [''assets'', ''icon.ico'']) = last (tmp_path e)" by simp
    then show False by (simp add: tmp_path_def)
  qed
  then show ?thesis using win_path_icon [OF assms] by (simp add: exist_def)
qed

lemma echo_to_at:
  "win_path f = p \<Longrightarrow> writable w p \<Longrightarrow>
   echo_to l f w = w\<lparr>fs := (fs w)(p \<mapsto> File (Text [l]))\<rparr>"
  by (simp add: echo_to_def)

lemma echo_append_at:
  "win_path f = p \<Longrightarrow> writable w p \<Longrightarrow>
   echo_append l f (w\<lparr>fs := (fs w)(p \<mapsto> File (Text ls))\<rparr>)
     = w\<lparr>fs := (fs w)(p \<mapsto> File (Text (ls @ [l])))\<rparr>"
  using writable_upd [of w p "Text ls"] by (auto simp add: echo_append_def)

lemma write_script_ok:
  assumes wr: "writable w (tmp_path e)" and ok: "\<forall>c\<in>set (batch_dir e w). name_ok c"
  shows "write_script e w = w\<lparr>fs := (fs w)(tmp_path e \<mapsto> File (Text (script_lines e w)))\<rparr>"
proof -
  have sd: "SCRIPT_DIR e w = render (batch_dir e w)" by (simp add: SCRIPT_DIR_def batch_dir_def)
  have ex: "\<And>x. exist (render (batch_dir e w) @ ''assets'' @ [bs] @ ''icon.ico'')
           (w\<lparr>fs := (fs w)(tmp_path e \<mapsto> x)\<rparr>)
         = (fs w (batch_dir e w @ [''assets'', ''icon.ico'']) \<noteq> None)"
    using exist_icon_upd [OF ok] by (simp add: sd)
  have se: "\<And>x. search_dirs (w\<lparr>fs := (fs w)(tmp_path e \<mapsto> x)\<rparr>) (PATH e) ''pythonw.exe''
               = search_dirs w (PATH e) ''pythonw.exe''"
    by (rule search_dirs_upd) (simp add: tmp_path_def)
  note echo = echo_to_at [OF win_path_tmp wr] echo_append_at [OF win_path_tmp wr]
  show ?thesis
  proof (cases "fs w (batch_dir e w @ [''assets'', ''icon.ico'']) = None")
    case True
    then show ?thesis
      unfolding write_script_def Let_def sd
      by (simp only: echo ex se) (simp add: echo script_lines_def the_shortcut_def icon_of_def)
  next
    case False
    then show ?thesis
      unfolding write_script_def Let_def sd
      by (simp only: echo ex se) (simp add: echo script_lines_def the_shortcut_def icon_of_def)
  qed
qed


subsection \<open>Reading the temporary script\<close>

lemma rstrip_line: "rstrip (pre @ quoted v @ '' '') = pre @ quoted v"
  by (simp add: rstrip_def quoted_def dq_def)

lemma parse_CreateShell:
  "parse_vbs (''Set oWS = WScript.CreateObject('' @ quoted ''WScript.Shell'' @ '') '') = Some CreateShell"
  by (simp add: parse_vbs_def rstrip_def quoted_def dq_def)

lemma parse_CreateShortcut:
  "parse_vbs ''Set oLink = oWS.CreateShortcut(sLinkFile) '' = Some CreateShortcut"
  by (simp add: parse_vbs_def rstrip_def quoted_def dq_def)

lemma parse_Save: "parse_vbs ''oLink.Save '' = Some Save"
  by (simp add: parse_vbs_def rstrip_def quoted_def dq_def)

lemma parse_AssignLinkFile:
  "dq \<notin> set v \<Longrightarrow> parse_vbs (''sLinkFile = '' @ quoted v @ '' '') = Some (AssignLinkFile v)"
  unfolding parse_vbs_def rstrip_line Let_def
  by (simp add: assignment_def literal_def quoted_def)

lemma parse_SetTargetPath:
  "dq \<notin> set v \<Longrightarrow> parse_vbs (''oLink.TargetPath = '' @ quoted v @ '' '') = Some (SetTargetPath v)"
  unfolding parse_vbs_def rstrip_line Let_def
  by (simp add: assignment_def literal_def quoted_def)

lemma parse_SetWorkingDirectory:
  "dq \<notin> set v \<Longrightarrow>
   parse_vbs (''oLink.WorkingDirectory = '' @ quoted v @ '' '') = Some (SetWorkingDirectory v)"
  unfolding parse_vbs_def rstrip_line Let_def
  by (simp add: assignment_def literal_def quoted_def)

lemma parse_SetDescription:
  "dq \<notin> set v \<Longrightarrow>
   parse_vbs (''oLink.Description = '' @ quoted v @ '' '') = Some (SetDescription v)"
  unfolding parse_vbs_def rstrip_line Let_def
  by (simp add: assignment_def literal_def quoted_def)

lemma parse_SetIconLocation:
  "dq \<notin> set v \<Longrightarrow>
   parse_vbs (''oLink.IconLocation = '' @ quoted v @ '' '') = Some (SetIconLocation v)"
  unfolding parse_vbs_def rstrip_line Let_def
  by (simp add: assignment_def literal_def quoted_def)

lemma plain_dq: "plain s \<Longrightarrow> dq \<notin> set s"
  by (auto simp add: plain_def special_def)

lemma dq_render: "\<forall>c\<in>set p. name_ok c \<Longrightarrow> dq \<notin> set (render p)"
  by (auto simp add: render_def name_ok_def dq_def bs_def dest: plain_dq [unfolded dq_def])

lemma dq_icon_of: "batch_env_ok e w \<Longrightarrow> dq \<notin> set (icon_of e w)"
  using dq_render [of "batch_dir e w"] plain_dq [of "search_dirs w (PATH e) ''pythonw.exe''"]
  by (simp add: icon_of_def batch_env_ok_def) (simp add: dq_def bs_def)

lemma parse_script:
  assumes "batch_env_ok e w"
  shows "parse_all (script_lines e w) = Some (script_stmts e w)"
proof -
  have 1: "dq \<notin> set (DESKTOP e @ [bs] @ SHORTCUT_NAME @ ''.lnk'')"
    using assms plain_dq [of "USERPROFILE e"]
    by (simp add: batch_env_ok_def DESKTOP_def SHORTCUT_NAME_def) (simp add: dq_def bs_def)
  have r: "dq \<notin> set (render (batch_dir e w))"
    using assms dq_render [of "batch_dir e w"] by (simp add: batch_env_ok_def)
  have 2: "dq \<notin> set (TargetPath (the_shortcut e w))"
    using r by (simp add: the_shortcut_def) (simp add: dq_def)
  have 3: "dq \<notin> set (WorkingDirectory (the_shortcut e w))"
    using r by (simp add: the_shortcut_def)
  have 4: "dq \<notin> set (Description (the_shortcut e w))"
    by (simp add: the_shortcut_def dq_def)
  have 5: "dq \<notin> set (IconLocation (the_shortcut e w))"
    using dq_icon_of [OF assms] by (simp add: the_shortcut_def)
  show ?thesis
    unfolding script_lines_def script_stmts_def parse_all.simps
    by (simp only: parse_CreateShell parse_CreateShortcut parse_Save
          parse_AssignLinkFile [OF 1] parse_SetTargetPath [OF 2] parse_SetWorkingDirectory [OF 3]
          parse_SetDescription [OF 4] parse_SetIconLocation [OF 5] option.case)
qed


subsection \<open>Running the temporary script\<close>

lemma shortcut_overwritten:
  "sc\<lparr>TargetPath := a, WorkingDirectory := b, Description := c, IconLocation := d\<rparr>
     = \<lparr>TargetPath = a, WorkingDirectory = b, Description = c, IconLocation = d\<rparr>"
  by (cases sc) simp

lemma exec_script:
  "exec_vbs (script_stmts e w) vbs_start v =
     (if writable v (link_path e)
      then record_call (SaveShortcut (link_path e) (the_shortcut e w)) True
             (v\<lparr>fs := (fs v)(link_path e \<mapsto> File (Lnk (the_shortcut e w)))\<rparr>)
      else print ''Microsoft VBScript runtime error''
             (record_call (SaveShortcut (link_path e) (the_shortcut e w)) False v))"
  unfolding script_stmts_def
  by (simp add: vbs_start_def is_lnk_name_def win_path_link [simplified] the_shortcut_def
        shortcut_overwritten)

lemma writable_link_upd:
  "writable (w\<lparr>fs := (fs w)(tmp_path e \<mapsto> x), calls := cs\<rparr>) (link_path e) = writable w (link_path e)"
  using link_not_tmp [of e] link_dir_not_tmp [of e]
  by (simp add: writable_def is_dir_def)

lemma cscript_ok:
  assumes ok: "batch_env_ok e w"
  shows "cscript (temp_vbs e) (w\<lparr>fs := (fs w)(tmp_path e \<mapsto> File (Text (script_lines e w)))\<rparr>)
    = (if writable w (link_path e)
       then w\<lparr>fs := (fs w)(tmp_path e \<mapsto> File (Text (script_lines e w)),
                           link_path e \<mapsto> File (Lnk (the_shortcut e w))),
               calls := calls w @ [(Spawn (cscript_process e w), True),
                                   (SaveShortcut (link_path e) (the_shortcut e w), True)]\<rparr>
       else w\<lparr>fs := (fs w)(tmp_path e \<mapsto> File (Text (script_lines e w))),
               calls := calls w @ [(Spawn (cscript_process e w), True),
                                   (SaveShortcut (link_path e) (the_shortcut e w), False)],
               console := console w @ [''Microsoft VBScript runtime error'']\<rparr>)"
  unfolding cscript_def Let_def
  by (simp add: record_call_def win_path_tmp run_vbs_def parse_script [OF ok] exec_script
        writable_link_upd cscript_process_def print_def)


subsection \<open>A run of the batch file\<close>

lemma prints_fields:
  "fs (foldl (\<lambda>v s. print s v) w xs) = fs w \<and> calls (foldl (\<lambda>v s. print s v) w xs) = calls w
   \<and> cwd (foldl (\<lambda>v s. print s v) w xs) = cwd w
   \<and> sys_path (foldl (\<lambda>v s. print s v) w xs) = sys_path w
   \<and> console (foldl (\<lambda>v s. print s v) w xs) = console w @ xs"
  by (induction xs arbitrary: w) (simp_all add: print_def)

lemma banner_fields [simp]:
  "fs (banner w) = fs w" "calls (banner w) = calls w" "cwd (banner w) = cwd w"
  "sys_path (banner w) = sys_path w" "console (banner w) = console w @ banner_lines"
  by (simp_all add: banner_def prints_fields)

lemma after_script:
  assumes ok: "batch_env_ok e w" and wr: "writable w (tmp_path e)"
  shows "cscript (temp_vbs e) (write_script e w)
    = (if writable w (link_path e)
       then w\<lparr>fs := (fs w)(tmp_path e \<mapsto> File (Text (script_lines e w)),
                           link_path e \<mapsto> File (Lnk (the_shortcut e w))),
               calls := calls w @ [(Spawn (cscript_process e w), True),
                                   (SaveShortcut (link_path e) (the_shortcut e w), True)]\<rparr>
       else w\<lparr>fs := (fs w)(tmp_path e \<mapsto> File (Text (script_lines e w))),
               calls := calls w @ [(Spawn (cscript_process e w), True),
                                   (SaveShortcut (link_path e) (the_shortcut e w), False)],
               console := console w @ [''Microsoft VBScript runtime error'']\<rparr>)"
proof -
  have "\<forall>c\<in>set (batch_dir e w). name_ok c" using ok by (simp add: batch_env_ok_def)
  then show ?thesis by (simp only: write_script_ok [OF wr] cscript_ok [OF ok])
qed

lemma batch_fs:
  assumes ok: "batch_env_ok e w" and wr: "writable w (tmp_path e)"
  shows "fs (create_shortcut_bat e w)
     = (if writable w (link_path e)
        then (fs w)(link_path e \<mapsto> File (Lnk (the_shortcut e w))) else fs w)(tmp_path e := None)"
  using link_not_tmp [of e]
  by (auto simp add: create_shortcut_bat_def after_script [OF ok wr] del_def win_path_tmp
        is_file_def fun_eq_iff)

lemma batch_calls:
  assumes ok: "batch_env_ok e w" and wr: "writable w (tmp_path e)"
  shows "calls (create_shortcut_bat e w)
     = calls w @ [(Spawn (cscript_process e w), True),
                  (SaveShortcut (link_path e) (the_shortcut e w), writable w (link_path e))]"
  using link_not_tmp [of e]
  by (simp add: create_shortcut_bat_def after_script [OF ok wr] del_def win_path_tmp
        is_file_def)




subsection \<open>A run of a launcher\<close>

lemma new_calls_append [simp]: "calls w' = calls w @ cs \<Longrightarrow> new_calls w w' = cs"
  by (simp add: new_calls_def)

lemma Popen_run:
  "Popen e args d flags w =
     (if is_dir w d then Inr () else Inl (cwd_error e d),
      w\<lparr>calls := calls w @
         [(Spawn \<lparr>argv = args, pcwd = d, hidden = (flags = CREATE_NO_WINDOW), waited = False, piped = False\<rparr>,
           is_dir w d)]\<rparr>)"
  by (simp add: Popen_def record_call_def)

lemma flags_hidden: "((if win then CREATE_NO_WINDOW else 0) = CREATE_NO_WINDOW) = win"
  by (simp add: CREATE_NO_WINDOW_def)

lemma NIBOR_Recon_run:
  "NIBOR_Recon e w =
     (if is_dir w (script_dir e w) then Inr () else Inl (cwd_error e (script_dir e w)),
      w\<lparr>calls := calls w @
         [(Spawn \<lparr>argv = [executable e, ''main.py''], pcwd = script_dir e w, hidden = win32 e,
                   waited = False, piped = False\<rparr>, is_dir w (script_dir e w))]\<rparr>)"
  by (simp add: NIBOR_Recon_def Popen_run flags_hidden)

lemma part_000_run:
  "part_000_launcher e w =
     (if is_dir w (project_dir e) then Inr () else Inl (cwd_error e (project_dir e)),
      w\<lparr>calls := calls w @
         [(Spawn \<lparr>argv = [executable e, ''main.py''], pcwd = project_dir e, hidden = win32 e,
                   waited = False, piped = False\<rparr>, is_dir w (project_dir e))]\<rparr>)"
  by (simp add: part_000_launcher_def Popen_run flags_hidden)

lemma part_001_run:
  "part_001_launcher e w =
     (let sd = script_dir e w in
      if is_dir w sd
      then (if is_file w (sd @ [''main.py'']) then Inr ()
            else Inl (FileNotFoundError (sd @ [''main.py''])),
            w\<lparr>cwd := sd,
              sys_path := (if sd \<in> set (sys_path w) then sys_path w else sd # sys_path w),
              calls := calls w @ [(Chdir sd, True),
                 (RunPath (sd @ [''main.py'']) ''__main__'' sd, is_file w (sd @ [''main.py'']))]\<rparr>)
      else (Inl (FileNotFoundError sd), w\<lparr>calls := calls w @ [(Chdir sd, False)]\<rparr>))"
  by (simp add: part_001_launcher_def Let_def then_do_def chdir_def record_call_def
        sys_path_insert0_def run_path_def is_file_def is_dir_def)

lemma words_command: "split_on CHR '' '' ''pythonw main.py'' = [''pythonw'', ''main.py'']"
  by (simp add: split_on_def)

lemma start_nibor_run:
  "start_nibor e w =
     (let sd = butlast (abspath True (cwd w) (script_file e));
          found = (is_file w (sd @ [''pythonw.exe''])
                   \<or> search_dirs w (PATH e) ''pythonw.exe'' \<noteq> [])
      in if is_dir w sd
         then (if found then Inr () else Inl (WshRuntimeError ''file not found''),
               w\<lparr>cwd := sd,
                 calls := calls w @ [(Chdir sd, True),
                   (Spawn \<lparr>argv = [''pythonw'', ''main.py''], pcwd = sd, hidden = True,
                           waited = False, piped = False\<rparr>, found)]\<rparr>)
         else (Inl (WshRuntimeError ''path not found''),
               w\<lparr>calls := calls w @ [(Chdir sd, False)]\<rparr>))"
  by (simp add: start_nibor_def Let_def then_do_def set_CurrentDirectory_def record_call_def
        WshShell_Run_def words_command GetParentFolderName_def ScriptFullName_def
        is_file_def is_dir_def search_dirs_fs [of "w\<lparr>cwd := x, calls := y\<rparr>" w for x y])

lemma script_dir_launcher: "L \<noteq> Start_nibor_vbs \<Longrightarrow> script_dir e w = launcher_dir L e w"
  by (simp add: script_dir_def launcher_dir_def location_def)

lemma vbs_dir_launcher:
  "butlast (abspath True (cwd w) (script_file e)) = launcher_dir Start_nibor_vbs e w"
  by (simp add: launcher_dir_def location_def)


subsection \<open>The example machine\<close>

lemma example_batch_dir: "batch_dir example_env example_world = [''C:'', ''proj'']"
  by (simp add: batch_dir_def example_env_def example_world_def abspath_def normpath_def is_drive_def)

lemma example_pythonw:
  "search_dirs example_world (PATH example_env) ''pythonw.exe''
     = ''C:'' @ [bs] @ ''Python'' @ [bs] @ ''pythonw.exe''"
  by (simp add: example_env_def example_world_def example_fs_def is_file_def win_path_def
        split_on_def bs_def)

lemma example_ok: "batch_env_ok example_env example_world"
  by (simp add: batch_env_ok_def example_batch_dir example_pythonw name_ok_def plain_def
        special_def)
     (simp add: example_env_def bs_def dq_def)

lemma example_tmp: "tmp_path example_env = [''C:'', ''Temp'', ''CreateShortcut.vbs'']"
  by (simp add: tmp_path_def example_env_def win_path_def split_on_def bs_def)

lemma example_link: "link_path example_env = [''C:'', ''Users'', ''u'', ''Desktop'', ''NIBOR Terminal.lnk'']"
  by (simp add: link_path_def example_env_def win_path_def split_on_def bs_def)

lemma example_writable:
  "writable example_world (tmp_path example_env)" "writable example_world (link_path example_env)"
  by (simp_all add: example_tmp example_link writable_def is_dir_def example_world_def example_fs_def)

lemma example_launcher_dir:
  "launcher_dir L example_env example_world = [''C:'', ''proj'']"
  by (simp add: launcher_dir_def location_def example_env_def example_world_def abspath_def
        normpath_def dirname_def is_drive_def)

lemma example_is_dir:
  "is_dir example_world [''C:'', ''proj'']"
  by (simp add: is_dir_def example_world_def example_fs_def)




lemma stale_world_ok:
  "batch_env_ok example_env stale_world" "writable stale_world (tmp_path example_env)"
  "writable stale_world (link_path example_env)"
  "fs stale_world (tmp_path example_env) = Some (File (Text [''stale'']))"
proof -
  have "cwd stale_world = cwd example_world" by (simp add: stale_world_def)
  then have "batch_dir example_env stale_world = batch_dir example_env example_world"
    by (simp add: batch_dir_def)
  moreover have "search_dirs stale_world (PATH example_env) ''pythonw.exe''
          = search_dirs example_world (PATH example_env) ''pythonw.exe''"
    by (simp add: stale_world_def example_env_def is_file_def win_path_def split_on_def bs_def)
  ultimately show "batch_env_ok example_env stale_world"
    using example_ok by (simp add: batch_env_ok_def)
  show "writable stale_world (tmp_path example_env)" "writable stale_world (link_path example_env)"
    using example_writable
    by (simp_all add: example_tmp example_link writable_def is_dir_def stale_world_def)
  show "fs stale_world (tmp_path example_env) = Some (File (Text [''stale'']))"
    by (simp add: example_tmp stale_world_def)
qed

lemma onedrive_project_dir:
  "is_dir onedrive_world (project_dir example_env)
   \<and> \<not> is_file onedrive_world (project_dir example_env @ [''main.py''])"
  by (simp add: project_dir_def example_env_def onedrive_world_def is_dir_def is_file_def
        example_world_def example_fs_def)


section \<open>The claims\<close>

text \<open>
  C1.  Every launcher (NIBOR_Recon.pyw, the launchers of unnamed/part_000 and
  unnamed/part_001, start_nibor.vbs), lying in a folder that exists, asks the system
  for exactly one launch: the Python interpreter with the script \<open>main.py\<close>, in one
  directory (its own folder, or the project directory of part_000), as a child process or,
  for part_001, inside its own interpreter after changing into that directory.  No other
  program is asked for.  When that directory is there (and, for part_001, main.py in it,
  and for the script host a pythonw.exe to run), every request succeeds.
\<close>

theorem launchers_start_main:
  assumes "is_dir w (launcher_dir L e w)"
  shows "let cs = new_calls w (snd (run L e w)) in
           (if L = Part_001
            then spawned cs = [] \<and>
                 in_process cs = [(target_dir L e w @ [''main.py''], ''__main__'', target_dir L e w)]
            else in_process cs = [] \<and>
                 map (\<lambda>p. (argv p, pcwd p)) (spawned cs)
                   = [([interpreter L e, ''main.py''], target_dir L e w)])
         \<and> working_dirs cs = [target_dir L e w]
         \<and> launched_files cs = [target_dir L e w @ [''main.py'']]
         \<and> (can_start L e w \<longrightarrow> fst (run L e w) = Inr () \<and> list_all snd cs)"
proof (cases L)
  case NIBOR_Recon_pyw
  then show ?thesis
    by (simp add: NIBOR_Recon_run script_dir_launcher [of L] interpreter_def can_start_def)
next
  case Part_000
  then show ?thesis
    by (simp add: part_000_run interpreter_def can_start_def)
next
  case Part_001
  then show ?thesis using assms
    by (simp add: part_001_run script_dir_launcher [of L] Let_def can_start_def)
next
  case Start_nibor_vbs
  then show ?thesis using assms
    by (simp add: start_nibor_run vbs_dir_launcher Let_def interpreter_def can_start_def)
qed

theorem launchers_start_main_witness:
  "is_dir example_world (launcher_dir Start_nibor_vbs example_env example_world)
   \<and> can_start Start_nibor_vbs example_env example_world
   \<and> map (\<lambda>p. (argv p, pcwd p))
        (spawned (new_calls example_world (snd (run Start_nibor_vbs example_env example_world))))
       = [([''pythonw'', ''main.py''], [''C:'', ''proj''])]
   \<and> launched_files (new_calls example_world (snd (run Start_nibor_vbs example_env example_world)))
       = [[''C:'', ''proj'', ''main.py'']]
   \<and> fst (run Start_nibor_vbs example_env example_world) = Inr ()"
proof -
  have h: "is_dir example_world (launcher_dir Start_nibor_vbs example_env example_world)"
    by (simp add: example_launcher_dir example_is_dir)
  have c: "can_start Start_nibor_vbs example_env example_world"
    by (simp add: can_start_def example_launcher_dir example_is_dir)
       (simp add: example_env_def example_world_def example_fs_def is_file_def win_path_def
          split_on_def bs_def)
  show ?thesis
    using h c launchers_start_main [OF h]
    by (simp add: Let_def example_launcher_dir interpreter_def)
qed












text \<open>
  C5.  No source file sets up anything to coordinate concurrent work.  A launcher asks
  the system for at most one launch: one child process running main.py, which it does not
  wait for and shares no pipe with, or (part_001) main.py inside its own interpreter and
  no child at all.  Besides
  that it asks only for the change into its target directory; it makes at most two
  requests.  The batch file, where it can write its temporary script, starts one process,
  the script host, and waits for it to end, so nothing of it runs alongside.
\<close>

theorem no_coordination:
  "(let cs = new_calls w (snd (run L e w)) in
      length (spawned cs) + length (in_process cs) \<le> 1
      \<and> list_all (\<lambda>p. \<not> waited p \<and> \<not> piped p \<and> argv p = [interpreter L e, ''main.py''])
           (spawned cs)
      \<and> list_all (\<lambda>c. case fst c of
                          Chdir d \<Rightarrow> d = target_dir L e w
                        | Spawn p \<Rightarrow> \<not> waited p \<and> \<not> piped p
                        | RunPath f n d \<Rightarrow> L = Part_001
                        | SaveShortcut p s \<Rightarrow> False) cs
      \<and> length cs \<le> 2)
   \<and> (batch_env_ok e w \<and> writable w (tmp_path e) \<longrightarrow>
        (let cs = new_calls w (create_shortcut_bat e w) in
           spawned cs = [cscript_process e w] \<and> waited (cscript_process e w)
           \<and> in_process cs = [] \<and> length cs = 2))"
proof -
  have batch: "batch_env_ok e w \<and> writable w (tmp_path e) \<longrightarrow>
        (let cs = new_calls w (create_shortcut_bat e w) in
           spawned cs = [cscript_process e w] \<and> waited (cscript_process e w)
           \<and> in_process cs = [] \<and> length cs = 2)"
    by (simp add: Let_def batch_calls cscript_process_def)
  have launch: "let cs = new_calls w (snd (run L e w)) in
      length (spawned cs) + length (in_process cs) \<le> 1
      \<and> list_all (\<lambda>p. \<not> waited p \<and> \<not> piped p \<and> argv p = [interpreter L e, ''main.py''])
           (spawned cs)
      \<and> list_all (\<lambda>c. case fst c of
                          Chdir d \<Rightarrow> d = target_dir L e w
                        | Spawn p \<Rightarrow> \<not> waited p \<and> \<not> piped p
                        | RunPath f n d \<Rightarrow> L = Part_001
                        | SaveShortcut p s \<Rightarrow> False) cs
      \<and> length cs \<le> 2"
  proof (cases L)
    case NIBOR_Recon_pyw
    then show ?thesis by (simp add: NIBOR_Recon_run Let_def interpreter_def)
  next
    case Part_000
    then show ?thesis by (simp add: part_000_run Let_def interpreter_def)
  next
    case Part_001
    then show ?thesis
      by (simp add: part_001_run script_dir_launcher [of L] Let_def interpreter_def)
  next
    case Start_nibor_vbs
    then show ?thesis
      by (simp add: start_nibor_run vbs_dir_launcher Let_def interpreter_def)
  qed
  show ?thesis using batch launch by blast
qed

theorem no_coordination_witness:
  "batch_env_ok example_env example_world
   \<and> writable example_world (tmp_path example_env)
   \<and> spawned (new_calls example_world (create_shortcut_bat example_env example_world))
       = [cscript_process example_env example_world]
   \<and> length (spawned (new_calls example_world (snd (run Start_nibor_vbs example_env example_world))))
        + length (in_process (new_calls example_world (snd (run Start_nibor_vbs example_env example_world))))
       \<le> 1"
  using example_ok example_writable(1)
    no_coordination [of example_world Start_nibor_vbs example_env, unfolded Let_def]
  by blast


text \<open>
  C6.  For NIBOR_Recon.pyw, the part_001 launcher and start_nibor.vbs: two starts of
  the same launcher file (the names it is started under, read from the two current
  directories, are the same place) hand main.py the same working directory, the folder of
  the launcher, and run the same file, main.py in that folder.
\<close>

theorem script_relative_directory:
  assumes "L \<noteq> Part_000"
      and "location L e1 w1 = location L e2 w2" and "win32 e1 = win32 e2"
      and "is_dir w1 (launcher_dir L e1 w1)" and "is_dir w2 (launcher_dir L e2 w2)"
  shows "working_dirs (new_calls w1 (snd (run L e1 w1))) = [launcher_dir L e1 w1]
       \<and> working_dirs (new_calls w2 (snd (run L e2 w2))) = [launcher_dir L e1 w1]
       \<and> launched_files (new_calls w1 (snd (run L e1 w1))) = [launcher_dir L e1 w1 @ [''main.py'']]
       \<and> launched_files (new_calls w2 (snd (run L e2 w2))) = [launcher_dir L e1 w1 @ [''main.py'']]"
proof -
  have same: "launcher_dir L e2 w2 = launcher_dir L e1 w1"
    using assms(2,3) by (auto simp add: launcher_dir_def)
  show ?thesis
  proof (cases L)
    case NIBOR_Recon_pyw
    then show ?thesis using same
      by (simp add: NIBOR_Recon_run script_dir_launcher [of L])
  next
    case Part_000
    then show ?thesis using assms(1) by simp
  next
    case Part_001
    then show ?thesis using same assms(4,5)
      by (simp add: part_001_run script_dir_launcher [of L] Let_def)
  next
    case Start_nibor_vbs
    then show ?thesis using same assms(4,5)
      by (simp add: start_nibor_run vbs_dir_launcher Let_def)
  qed
qed

theorem script_relative_directory_witness:
  "NIBOR_Recon_pyw \<noteq> Part_000
   \<and> location NIBOR_Recon_pyw (example_env\<lparr>script_file := Rel [''..'', ''..'', ''proj'', ''NIBOR_Recon.pyw'']\<rparr>)
        example_world = location NIBOR_Recon_pyw elsewhere_env elsewhere_world
   \<and> cwd example_world \<noteq> cwd elsewhere_world
   \<and> working_dirs (new_calls example_world (snd (run NIBOR_Recon_pyw
        (example_env\<lparr>script_file := Rel [''..'', ''..'', ''proj'', ''NIBOR_Recon.pyw'']\<rparr>) example_world)))
       = [[''C:'', ''proj'']]
   \<and> working_dirs (new_calls elsewhere_world (snd (run NIBOR_Recon_pyw elsewhere_env elsewhere_world)))
       = [[''C:'', ''proj'']]"
proof -
  let ?e = "example_env\<lparr>script_file := Rel [''..'', ''..'', ''proj'', ''NIBOR_Recon.pyw'']\<rparr>"
  have l1: "location NIBOR_Recon_pyw ?e example_world = [''C:'', ''proj'', ''NIBOR_Recon.pyw'']"
    by (simp add: location_def example_env_def example_world_def abspath_def normpath_def is_drive_def)
  have l2: "location NIBOR_Recon_pyw elsewhere_env elsewhere_world = [''C:'', ''proj'', ''NIBOR_Recon.pyw'']"
    by (simp add: location_def elsewhere_env_def elsewhere_world_def example_env_def
          example_world_def abspath_def normpath_def is_drive_def)
  have d1: "launcher_dir NIBOR_Recon_pyw ?e example_world = [''C:'', ''proj'']"
    by (simp add: launcher_dir_def l1 dirname_def)
  have d2: "launcher_dir NIBOR_Recon_pyw elsewhere_env elsewhere_world = [''C:'', ''proj'']"
    by (simp add: launcher_dir_def l2 dirname_def)
  have i1: "is_dir example_world (launcher_dir NIBOR_Recon_pyw ?e example_world)"
    by (simp add: d1 example_is_dir)
  have i2: "is_dir elsewhere_world (launcher_dir NIBOR_Recon_pyw elsewhere_env elsewhere_world)"
    unfolding d2 by (simp add: is_dir_def elsewhere_world_def example_world_def example_fs_def)
  have w: "win32 ?e = win32 elsewhere_env" by (simp add: elsewhere_env_def)
  have c: "cwd example_world \<noteq> cwd elsewhere_world"
    by (simp add: elsewhere_world_def example_world_def)
  have n: "NIBOR_Recon_pyw \<noteq> Part_000" by simp
  have s: "location NIBOR_Recon_pyw ?e example_world = location NIBOR_Recon_pyw elsewhere_env elsewhere_world"
    by (simp add: l1 l2)
  show ?thesis
    using script_relative_directory [OF n s w i1 i2] c s by (simp add: d1)
qed


text \<open>
  C7.  The part_000 launcher aims at the directory reached from the home directory
  through \<open>OneDrive - Swedbank\<close>, \<open>GroupTreasury-ShortTermFunding - Documents\<close>,
  \<open>Samba\<close>, \<open>Samba\<close> and \<open>Gitnewnew\<close>: the name it was started under and the
  directory it was started in do not enter.  Its one request is a child
  \<open>sys.executable main.py\<close> in that directory, never waited for; the request succeeds
  exactly when the directory exists and otherwise raises.  Nothing is tested first: with
  the directory there and no main.py in it the child is started and does not find its
  script.
\<close>

theorem part_000_fixed_directory:
  "project_dir e = home e @ [''OneDrive - Swedbank'', ''GroupTreasury-ShortTermFunding - Documents'',
                             ''Samba'', ''Samba'', ''Gitnewnew'']
   \<and> project_dir (e\<lparr>script_file := f\<rparr>) = project_dir e
   \<and> new_calls w (snd (part_000_launcher e w))
       = [(Spawn \<lparr>argv = [executable e, ''main.py''], pcwd = project_dir e, hidden = win32 e,
                  waited = False, piped = False\<rparr>, is_dir w (project_dir e))]
   \<and> working_dirs (new_calls (w\<lparr>cwd := c\<rparr>)
         (snd (part_000_launcher (e\<lparr>script_file := f\<rparr>) (w\<lparr>cwd := c\<rparr>)))) = [project_dir e]
   \<and> fst (part_000_launcher e w)
       = (if is_dir w (project_dir e) then Inr () else Inl (cwd_error e (project_dir e)))
   \<and> (is_dir w (project_dir e) \<and> \<not> is_file w (project_dir e @ [''main.py''])
        \<longrightarrow> fst (part_000_launcher e w) = Inr ()
            \<and> list_all snd (new_calls w (snd (part_000_launcher e w)))
            \<and> list_all (\<lambda>p. \<not> finds_script w p) (spawned (new_calls w (snd (part_000_launcher e w)))))"
  by (simp add: part_000_run finds_script_def) (simp add: project_dir_def)

theorem part_000_fixed_directory_witness:
  "is_dir onedrive_world (project_dir example_env)
   \<and> \<not> is_file onedrive_world (project_dir example_env @ [''main.py''])
   \<and> fst (part_000_launcher example_env onedrive_world) = Inr ()
   \<and> list_all snd (new_calls onedrive_world (snd (part_000_launcher example_env onedrive_world)))"
  using onedrive_project_dir part_000_fixed_directory [of example_env "script_file example_env" onedrive_world "cwd onedrive_world"]
  by simp


text \<open>
  C8, as stated, fails where a file \<open>CreateShortcut.vbs\<close> lies in \<open>%TEMP%\<close> before the
  run: it is not the Desktop shortcut, and after the run it is gone.
\<close>

theorem stale_temp_script_lost:
  "tmp_path example_env \<noteq> link_path example_env
   \<and> fs stale_world (tmp_path example_env) = Some (File (Text [''stale'']))
   \<and> fs (create_shortcut_bat example_env stale_world) (tmp_path example_env) = None"
  using link_not_tmp [of example_env] stale_world_ok(4)
  by (simp add: batch_fs [OF stale_world_ok(1,2)])

text \<open>
  C8, amended.  Where the batch file can write its temporary script, after the run
  there is no file at \<open>CreateShortcut.vbs\<close> in \<open>%TEMP%\<close> (one that was there before is
  overwritten and deleted with it), every path other than that one and the Desktop
  shortcut is as before, and so the only path that can be new is the Desktop shortcut.
\<close>

theorem temp_script_removed:
  assumes ok: "batch_env_ok e w" and wr: "writable w (tmp_path e)"
  shows "let w' = create_shortcut_bat e w in
           fs w' (tmp_path e) = None
         \<and> (\<forall>p. p \<noteq> tmp_path e \<and> p \<noteq> link_path e \<longrightarrow> fs w' p = fs w p)
         \<and> (\<forall>p. fs w p = None \<and> fs w' p \<noteq> None \<longrightarrow> p = link_path e)"
  by (auto simp add: Let_def batch_fs [OF ok wr] split: if_splits)

theorem temp_script_removed_witness:
  "batch_env_ok example_env stale_world
   \<and> writable stale_world (tmp_path example_env)
   \<and> fs (create_shortcut_bat example_env stale_world) [''C:'', ''Temp'', ''CreateShortcut.vbs''] = None
   \<and> fs (create_shortcut_bat example_env stale_world) [''C:'', ''proj'', ''main.py'']
       = fs stale_world [''C:'', ''proj'', ''main.py'']"
proof -
  note t = temp_script_removed [OF stale_world_ok(1,2), unfolded Let_def]
  from t have a: "fs (create_shortcut_bat example_env stale_world) (tmp_path example_env) = None"
    by (rule conjunct1)
  have n: "[''C:'', ''proj'', ''main.py''] \<noteq> tmp_path example_env
           \<and> [''C:'', ''proj'', ''main.py''] \<noteq> link_path example_env"
    by (simp add: example_tmp example_link)
  from t have "\<forall>p. p \<noteq> tmp_path example_env \<and> p \<noteq> link_path example_env
          \<longrightarrow> fs (create_shortcut_bat example_env stale_world) p = fs stale_world p"
    by blast
  with n have b: "fs (create_shortcut_bat example_env stale_world) [''C:'', ''proj'', ''main.py'']
       = fs stale_world [''C:'', ''proj'', ''main.py'']"
    by blast
  show ?thesis using stale_world_ok(1,2) a b by (simp add: example_tmp)
qed


end
